theory Spec2Isabelle
  imports Complex_Main
begin

section \<open>Python values used by \<open>metaopt.core.worker.transformer\<close>\<close>

text \<open>
  The two exceptions the module can raise: \<open>IndexError\<close> (from \<open>list.pop\<close> and from
  indexing a list or tuple out of range) and \<open>TypeError\<close>, which carries its message.
\<close>

datatype error = IndexError | TypeError string

text \<open>
  A type tag is a Python string or \<open>None\<close> (the value of \<open>Transformer.target_type\<close> in
  the abstract base class). A shape is a tuple of integers.
\<close>

type_synonym type_tag = "string option"
type_synonym shape = "int list"

text \<open>\<open>list.pop()\<close>: removes and returns the last element; raises on the empty list.\<close>

definition list_pop :: "'a list \<Rightarrow> error + ('a \<times> 'a list)" where
  "list_pop xs = (if xs = [] then Inl IndexError else Inr (last xs, butlast xs))"

section \<open>The class \<open>Transformer\<close> and its subclasses\<close>

text \<open>
  \<open>Transformer\<close> is abstract. The module defines the subclasses \<open>Identity\<close> and
  \<open>Compose\<close>; any other subclass is given by its five methods. Points are values of an
  arbitrary type \<open>'p\<close>.
\<close>

record 'p Transformer_methods =
  transform_m :: "'p \<Rightarrow> 'p"
  reverse_m :: "'p \<Rightarrow> 'p"
  infer_target_shape_m :: "shape \<Rightarrow> shape"
  repr_format_m :: "string \<Rightarrow> string"
  target_type_m :: type_tag

datatype 'p Transformer =
    Identity
  | Compose (composition: "'p Transformer") (apply': "'p Transformer")
  | Subclass "'p Transformer_methods"

text \<open>The defaults of the base class, inherited by a subclass that does not override them.\<close>

definition Transformer_target_type :: type_tag where
  "Transformer_target_type = None"

definition Transformer_infer_target_shape :: "shape \<Rightarrow> shape" where
  "Transformer_infer_target_shape shape = shape"

definition Transformer_repr_format :: "string \<Rightarrow> string \<Rightarrow> string" where
  "Transformer_repr_format class_name what = class_name @ ''('' @ what @ '')''"

text \<open>Method dispatch: one equation per class, each the body of that class's method.\<close>

primrec transform :: "'p Transformer \<Rightarrow> 'p \<Rightarrow> 'p" where
  "transform Identity point = point"
| "transform (Compose c a) point = (let point = transform c point in transform a point)"
| "transform (Subclass m) point = transform_m m point"

primrec reverse :: "'p Transformer \<Rightarrow> 'p \<Rightarrow> 'p" where
  "reverse Identity transformed_point = transformed_point"
| "reverse (Compose c a) transformed_point =
     (let transformed_point = reverse a transformed_point in reverse c transformed_point)"
| "reverse (Subclass m) transformed_point = reverse_m m transformed_point"

primrec infer_target_shape :: "'p Transformer \<Rightarrow> shape \<Rightarrow> shape" where
  "infer_target_shape Identity shape = Transformer_infer_target_shape shape"
| "infer_target_shape (Compose c a) shape =
     (let shape = infer_target_shape c shape in infer_target_shape a shape)"
| "infer_target_shape (Subclass m) shape = infer_target_shape_m m shape"

primrec repr_format :: "'p Transformer \<Rightarrow> string \<Rightarrow> string" where
  "repr_format Identity what = what"
| "repr_format (Compose c a) what = repr_format a (repr_format c what)"
| "repr_format (Subclass m) what = repr_format_m m what"

primrec target_type :: "'p Transformer \<Rightarrow> type_tag" where
  "target_type Identity = Some ''invariant''"
| "target_type (Compose c a) =
     (let type_before = target_type c; type_after = target_type a
      in if type_after \<noteq> Some ''invariant'' then type_after else type_before)"
| "target_type (Subclass m) = target_type_m m"

subsection \<open>\<open>Compose.__init__\<close>\<close>

text \<open>
  The constructor pops from the list object it is given, and hands the same list object
  to the constructor of the inner \<open>Compose\<close>. The model returns the new object together
  with the contents of the caller's list after the call.
\<close>

function Compose_init :: "'p Transformer list \<Rightarrow> 'p Transformer \<times> 'p Transformer list" where
  "Compose_init transformers =
     (let (a, transformers1) =
            (case list_pop transformers of
               Inl e \<Rightarrow> (Identity, transformers)
             | Inr (t, rest) \<Rightarrow> (t, rest))
      in if transformers1 \<noteq> []
         then (let (c, transformers2) = Compose_init transformers1
               in (Compose c a, transformers2))
         else (Compose Identity a, transformers1))"
  by pat_completeness auto
termination
proof (relation "measure length")
  show "wf (measure length)" by simp
next
  fix transformers :: "'p Transformer list" and x a transformers1
  assume x: "x = (case list_pop transformers of
                    Inl e \<Rightarrow> (Identity, transformers)
                  | Inr (t, rest) \<Rightarrow> (t, rest))"
    and p: "(a, transformers1) = x"
    and ne: "transformers1 \<noteq> []"
  show "(transformers1, transformers) \<in> measure length"
  proof (cases "transformers = []")
    case True
    with x p ne show ?thesis by (simp add: list_pop_def)
  next
    case False
    with x p have "transformers1 = butlast transformers" by (simp add: list_pop_def)
    with False show ?thesis by simp
  qed
qed

declare Compose_init.simps [simp del]

section \<open>The class \<open>TransformedDimension\<close>\<close>

text \<open>
  The original dimension is an object of \<open>metaopt.algo.space\<close>, used here only through
  its interface: \<open>name\<close>, \<open>type\<close>, \<open>shape\<close>, \<open>sample(n_samples, seed)\<close>,
  \<open>interval(alpha)\<close>, \<open>__contains__\<close> and \<open>__repr__\<close>. It is a parameter of the model.
  A draw is a function of the count and the seed.
\<close>

record 'p Dimension =
  dim_name :: string
  dim_type :: string
  dim_shape :: shape
  dim_sample :: "int \<Rightarrow> int option \<Rightarrow> 'p list"
  dim_interval :: "real \<Rightarrow> 'p \<times> 'p"
  dim_contains :: "'p \<Rightarrow> bool"
  dim_repr :: string

record 'p TransformedDimension =
  original_dimension :: "'p Dimension"
  transformer :: "'p Transformer"

definition TransformedDimension_init ::
  "'p Transformer \<Rightarrow> 'p Dimension \<Rightarrow> 'p TransformedDimension" where
  "TransformedDimension_init t d = \<lparr>original_dimension = d, transformer = t\<rparr>"

definition TransformedDimension_transform :: "'p TransformedDimension \<Rightarrow> 'p \<Rightarrow> 'p" where
  "TransformedDimension_transform self point = transform (transformer self) point"

definition TransformedDimension_reverse :: "'p TransformedDimension \<Rightarrow> 'p \<Rightarrow> 'p" where
  "TransformedDimension_reverse self transformed_point =
     reverse (transformer self) transformed_point"

definition TransformedDimension_sample ::
  "'p TransformedDimension \<Rightarrow> int \<Rightarrow> int option \<Rightarrow> 'p list" where
  "TransformedDimension_sample self n_samples seed =
     (let samples = dim_sample (original_dimension self) n_samples seed
      in map (\<lambda>sample. TransformedDimension_transform self sample) samples)"

definition TransformedDimension_interval ::
  "'p TransformedDimension \<Rightarrow> real \<Rightarrow> 'p \<times> 'p" where
  "TransformedDimension_interval self alpha =
     (let (low, high) = dim_interval (original_dimension self) alpha
      in (TransformedDimension_transform self low, TransformedDimension_transform self high))"

definition TransformedDimension_contains :: "'p TransformedDimension \<Rightarrow> 'p \<Rightarrow> bool" where
  "TransformedDimension_contains self point =
     (let orig_point = TransformedDimension_reverse self point
      in dim_contains (original_dimension self) orig_point)"

definition TransformedDimension_repr :: "'p TransformedDimension \<Rightarrow> string" where
  "TransformedDimension_repr self =
     repr_format (transformer self) (dim_repr (original_dimension self))"

definition TransformedDimension_name :: "'p TransformedDimension \<Rightarrow> string" where
  "TransformedDimension_name self = dim_name (original_dimension self)"

definition TransformedDimension_type :: "'p TransformedDimension \<Rightarrow> type_tag" where
  "TransformedDimension_type self =
     (let type' = target_type (transformer self)
      in if type' \<noteq> Some ''invariant'' then type'
         else Some (dim_type (original_dimension self)))"

definition TransformedDimension_shape :: "'p TransformedDimension \<Rightarrow> shape" where
  "TransformedDimension_shape self =
     infer_target_shape (transformer self) (dim_shape (original_dimension self))"

section \<open>The class \<open>TransformedSpace\<close>\<close>

text \<open>
  Modelled from the spec: the base class \<open>Space\<close> of \<open>metaopt.algo.space\<close>, whose
  constructor, \<open>register\<close> and \<open>values\<close> the module inherits, is not among the sources.
  The spec describes it as an ordered mapping from dimension name to dimension, to which
  \<open>register\<close> appends in insertion order, keyed by name. It is kept as an association
  list; registering under a name already present replaces that entry where it stands
  (the spec does not say what happens then).
\<close>

type_synonym 'p TransformedSpace = "(string \<times> 'p TransformedDimension) list"

definition TransformedSpace_init :: "'p TransformedSpace" where
  "TransformedSpace_init = []"

fun Space_register ::
  "'p TransformedSpace \<Rightarrow> 'p TransformedDimension \<Rightarrow> 'p TransformedSpace" where
  "Space_register [] d = [(TransformedDimension_name d, d)]"
| "Space_register ((k, v) # space) d =
     (if k = TransformedDimension_name d then (k, d) # space
      else (k, v) # Space_register space d)"

definition Space_values :: "'p TransformedSpace \<Rightarrow> 'p TransformedDimension list" where
  "Space_values space = map snd space"

text \<open>\<open>point[i]\<close> for an index \<open>i\<close> produced by \<open>enumerate\<close> (never negative).\<close>

definition index_at :: "'a list \<Rightarrow> nat \<Rightarrow> error + 'a" where
  "index_at xs i = (if i < length xs then Inr (xs ! i) else Inl IndexError)"

text \<open>
  The list comprehension of \<open>TransformedSpace.transform\<close> and \<open>TransformedSpace.reverse\<close>:
  \<open>[f(dim, point[i]) for i, dim in enumerate(self.values())]\<close>, stopping at the first
  index that \<open>point\<close> does not have.
\<close>

fun for_enumerate ::
  "('p TransformedDimension \<Rightarrow> 'p \<Rightarrow> 'p) \<Rightarrow> (nat \<times> 'p TransformedDimension) list \<Rightarrow>
   'p list \<Rightarrow> error + 'p list" where
  "for_enumerate f [] point = Inr []"
| "for_enumerate f ((i, dim') # rest) point =
     (case index_at point i of
        Inl e \<Rightarrow> Inl e
      | Inr v \<Rightarrow>
          (case for_enumerate f rest point of
             Inl e \<Rightarrow> Inl e
           | Inr out \<Rightarrow> Inr (f dim' v # out)))"

definition TransformedSpace_transform :: "'p TransformedSpace \<Rightarrow> 'p list \<Rightarrow> error + 'p list" where
  "TransformedSpace_transform self point =
     for_enumerate TransformedDimension_transform (enumerate 0 (Space_values self)) point"

definition TransformedSpace_reverse :: "'p TransformedSpace \<Rightarrow> 'p list \<Rightarrow> error + 'p list" where
  "TransformedSpace_reverse self transformed_point =
     for_enumerate TransformedDimension_reverse (enumerate 0 (Space_values self))
       transformed_point"

section \<open>\<open>build_required_space\<close>\<close>

text \<open>
  The argument \<open>requirements\<close> is a list or a single requirement; a single one is wrapped
  in a list. The function never looks at a requirement, so their type is left open.
\<close>

datatype 'r requirements = A_list "'r list" | Not_a_list 'r

definition requirements_as_list :: "'r requirements \<Rightarrow> 'r list" where
  "requirements_as_list requirements =
     (case requirements of A_list rs \<Rightarrow> rs | Not_a_list r \<Rightarrow> [r])"

text \<open>\<open>"{}".format(type_)\<close> for a type tag (the variable \<open>type_\<close> of the source is written \<open>type'\<close>).\<close>

definition format_type_tag :: "type_tag \<Rightarrow> string" where
  "format_type_tag type' = (case type' of None \<Rightarrow> ''None'' | Some s \<Rightarrow> s)"

text \<open>
  The \<open>if\<close>/\<open>elif\<close> chain on \<open>type'\<close>: the three recognised branches are \<open>pass\<close> and
  leave \<open>transformers\<close> as it is; the last branch raises.
\<close>

definition select_transformers ::
  "type_tag \<Rightarrow> 'p Transformer list \<Rightarrow> error + 'p Transformer list" where
  "select_transformers type' transformers =
     (if type' = Some ''real'' then Inr transformers
      else if type' = Some ''integer'' then Inr transformers
      else if type' = Some ''categorical'' then Inr transformers
      else Inl (TypeError (''Unsupported dimension type '' @ [CHR 0x27] @
                           format_type_tag type' @ [CHR 0x27])))"

text \<open>\<open>transformers[-1]\<close>.\<close>

definition last_item :: "'a list \<Rightarrow> error + 'a" where
  "last_item xs = (if xs = [] then Inl IndexError else Inr (last xs))"

text \<open>The loop over the requirements, for one dimension: its state is
  \<open>transformers\<close> and \<open>type'\<close>.\<close>

fun requirement_loop ::
  "'r list \<Rightarrow> 'p Transformer list \<Rightarrow> type_tag \<Rightarrow> error + ('p Transformer list \<times> type_tag)" where
  "requirement_loop [] transformers type' = Inr (transformers, type')"
| "requirement_loop (requirement # rest) transformers type' =
     (case select_transformers type' transformers of
        Inl e \<Rightarrow> Inl e
      | Inr transformers \<Rightarrow>
          (case last_item transformers of
             Inl e \<Rightarrow> Inl e
           | Inr t \<Rightarrow>
               (let last_type = target_type t;
                    type' = (if last_type \<noteq> Some ''invariant'' then last_type else type')
                in requirement_loop rest transformers type')))"

text \<open>The loop over the dimensions of the original space; its state is \<open>space\<close>.\<close>

fun dimension_loop ::
  "'r list \<Rightarrow> 'p Dimension list \<Rightarrow> 'p TransformedSpace \<Rightarrow> error + 'p TransformedSpace" where
  "dimension_loop requirements [] space = Inr space"
| "dimension_loop requirements (dim' # rest) space =
     (case requirement_loop requirements [] (Some (dim_type dim')) of
        Inl e \<Rightarrow> Inl e
      | Inr (transformers, type') \<Rightarrow>
          (let (c, transformers) = Compose_init transformers
           in dimension_loop requirements rest
                (Space_register space (TransformedDimension_init c dim'))))"

text \<open>
  The original space is given by the list that its \<open>values()\<close> yields: its dimensions,
  in its order.
\<close>

definition build_required_space ::
  "'r requirements \<Rightarrow> 'p Dimension list \<Rightarrow> error + 'p TransformedSpace" where
  "build_required_space requirements original_space_values =
     (let requirements = requirements_as_list requirements;
          space = TransformedSpace_init
      in dimension_loop requirements original_space_values space)"

section \<open>Reference notions for the properties\<close>

text \<open>
  Applying the transforms of a list one after the other, first to last; and applying
  their reverses one after the other, last to first.
\<close>

primrec apply_in_sequence :: "'p Transformer list \<Rightarrow> 'p \<Rightarrow> 'p" where
  "apply_in_sequence [] x = x"
| "apply_in_sequence (t # ts) x = apply_in_sequence ts (transform t x)"

primrec reverse_in_reverse_order :: "'p Transformer list \<Rightarrow> 'p \<Rightarrow> 'p" where
  "reverse_in_reverse_order [] y = y"
| "reverse_in_reverse_order (t # ts) y = reverse t (reverse_in_reverse_order ts y)"

text \<open>
  The domain of a chain, given a domain \<open>D t\<close> for each transform: the points that lie
  in the domain of the first transform and whose image under each transform lies in the
  domain of the next one.
\<close>

primrec in_composite_domain ::
  "('p Transformer \<Rightarrow> 'p set) \<Rightarrow> 'p Transformer list \<Rightarrow> 'p \<Rightarrow> bool" where
  "in_composite_domain D [] x = True"
| "in_composite_domain D (t # ts) x =
     (x \<in> D t \<and> in_composite_domain D ts (transform t x))"

section \<open>Example subclasses and dimensions\<close>

text \<open>
  Two subclasses of \<open>Transformer\<close> on numeric points. \<open>Shift\<close> adds one and declares the
  target type \<open>integer\<close>. \<open>Magnitude\<close> keeps the point, reverses by the absolute value (so
  it round-trips on the non-negative points only), and declares \<open>invariant\<close>. Both
  inherit \<open>infer_target_shape\<close> and \<open>repr_format\<close> from the base class.
\<close>

definition Shift :: "'a::linordered_idom Transformer" where
  "Shift = Subclass \<lparr>transform_m = (\<lambda>x. x + 1), reverse_m = (\<lambda>y. y - 1),
     infer_target_shape_m = Transformer_infer_target_shape,
     repr_format_m = Transformer_repr_format ''Shift'',
     target_type_m = Some ''integer''\<rparr>"

definition Magnitude :: "'a::linordered_idom Transformer" where
  "Magnitude = Subclass \<lparr>transform_m = (\<lambda>x. x), reverse_m = (\<lambda>y. \<bar>y\<bar>),
     infer_target_shape_m = Transformer_infer_target_shape,
     repr_format_m = Transformer_repr_format ''Magnitude'',
     target_type_m = Some ''invariant''\<rparr>"

text \<open>
  A scalar dimension with a given name and type, the interval \<open>(0.0, 10.0)\<close>, and a draw
  that is fixed by the count and the seed.
\<close>

definition example_dimension :: "string \<Rightarrow> string \<Rightarrow> real Dimension" where
  "example_dimension n ty =
     \<lparr>dim_name = n, dim_type = ty, dim_shape = [],
      dim_sample = (\<lambda>n_samples seed.
         map (\<lambda>i. real_of_int (case seed of None \<Rightarrow> 0 | Some s \<Rightarrow> s) + real i)
           [0..<nat n_samples]),
      dim_interval = (\<lambda>alpha. (0, 10)),
      dim_contains = (\<lambda>p. 0 \<le> p \<and> p \<le> 10),
      dim_repr = n\<rparr>"

section \<open>Properties of \<open>Compose\<close>\<close>

subsection \<open>What the constructor builds\<close>

lemma Compose_init_Nil: "Compose_init [] = (Compose Identity Identity, [])"
  by (simp add: Compose_init.simps [of "[]"] list_pop_def)

lemma Compose_init_single: "Compose_init [t] = (Compose Identity t, [])"
  by (simp add: Compose_init.simps [of "[t]"] list_pop_def)

lemma Compose_init_snoc:
  "ts \<noteq> [] \<Longrightarrow>
   Compose_init (ts @ [t]) = (Compose (fst (Compose_init ts)) t, snd (Compose_init ts))"
  by (simp add: Compose_init.simps [of "ts @ [t]"] list_pop_def split: prod.splits)

lemma Compose_init_fst_snoc:
  "fst (Compose_init (ts @ [t])) =
     Compose (if ts = [] then Identity else fst (Compose_init ts)) t"
  by (simp add: Compose_init_single Compose_init_snoc)

lemma Compose_init_consumes: "snd (Compose_init ts) = []"
proof (induction ts rule: rev_induct)
  case Nil
  show ?case by (simp add: Compose_init_Nil)
next
  case (snoc t ts)
  then show ?case
    by (cases "ts = []") (simp_all add: Compose_init_single Compose_init_snoc)
qed

lemma apply_in_sequence_snoc:
  "apply_in_sequence (ts @ [t]) x = transform t (apply_in_sequence ts x)"
  by (induction ts arbitrary: x) simp_all

lemma reverse_in_reverse_order_snoc:
  "reverse_in_reverse_order (ts @ [t]) y = reverse_in_reverse_order ts (reverse t y)"
  by (induction ts) simp_all

lemma Compose_init_transform:
  "transform (fst (Compose_init ts)) x = apply_in_sequence ts x"
proof (induction ts rule: rev_induct)
  case Nil
  show ?case by (simp add: Compose_init_Nil)
next
  case (snoc t ts)
  then show ?case
    by (simp add: Compose_init_fst_snoc apply_in_sequence_snoc)
qed

lemma Compose_init_reverse:
  "reverse (fst (Compose_init ts)) y = reverse_in_reverse_order ts y"
proof (induction ts arbitrary: y rule: rev_induct)
  case Nil
  show ?case by (simp add: Compose_init_Nil)
next
  case (snoc t ts)
  then show ?case
    by (simp add: Compose_init_fst_snoc reverse_in_reverse_order_snoc)
qed

lemma Compose_init_target_type_Nil:
  "target_type (fst (Compose_init [])) = Some ''invariant''"
  by (simp add: Compose_init_Nil)

lemma round_trip_in_sequence:
  "\<forall>t\<in>set ts. \<forall>x\<in>D t. reverse t (transform t x) = x \<Longrightarrow>
   in_composite_domain D ts x \<Longrightarrow>
   reverse_in_reverse_order ts (apply_in_sequence ts x) = x"
  by (induction ts arbitrary: x) simp_all

subsection \<open>Round trip\<close>

text \<open>
  Claim C1. Let every transform \<open>t\<close> of a list satisfy \<open>reverse(transform(x)) == x\<close> on
  its domain \<open>D t\<close>. Then the \<open>Compose\<close> object built from the list satisfies the same
  equation at every point of the domain of the chain.
\<close>

theorem Compose_round_trip:
  assumes "\<forall>t\<in>set ts. \<forall>x\<in>D t. reverse t (transform t x) = x"
    and "in_composite_domain D ts x"
  shows "reverse (fst (Compose_init ts)) (transform (fst (Compose_init ts)) x) = x"
  using assms
  by (simp add: Compose_init_transform Compose_init_reverse round_trip_in_sequence)

text \<open>
  At the list \<open>[Shift, Magnitude]\<close>, with the non-negative integers as the domain of
  both, and the point \<open>3\<close>.
\<close>

theorem Compose_round_trip_witness:
  "reverse (fst (Compose_init [Shift, Magnitude]))
     (transform (fst (Compose_init [Shift, Magnitude])) 3) = (3::int)"
  using Compose_round_trip [of "[Shift, Magnitude]" "\<lambda>t. {x. 0 \<le> x}" "3::int"]
  by (simp add: Shift_def Magnitude_def)

subsection \<open>Order of application\<close>

text \<open>
  Claim C2. For every list of transforms and every point, the forward map of the
  \<open>Compose\<close> object built from the list is the application of the first transform, then
  the second, and so on to the last; its reverse map is the application of the reverse
  of the last transform, and so on back to the reverse of the first.
\<close>

theorem Compose_applies_in_list_order:
  "transform (fst (Compose_init ts)) x = apply_in_sequence ts x \<and>
   reverse (fst (Compose_init ts)) y = reverse_in_reverse_order ts y"
  by (simp add: Compose_init_transform Compose_init_reverse)

subsection \<open>The empty list\<close>

text \<open>
  Claim C3. The \<open>Compose\<close> object built from the empty list behaves as \<open>Identity\<close>:
  \<open>transform\<close> and \<open>reverse\<close> return their argument, \<open>infer_target_shape\<close> returns the
  shape, \<open>repr_format\<close> returns the inner string, and the target type is \<open>invariant\<close>.
\<close>

theorem Compose_empty_is_Identity:
  "transform (fst (Compose_init [])) x = transform Identity x \<and>
   transform (fst (Compose_init [])) x = x \<and>
   reverse (fst (Compose_init [])) y = reverse Identity y \<and>
   reverse (fst (Compose_init [])) y = y \<and>
   infer_target_shape (fst (Compose_init [])) shape = infer_target_shape Identity shape \<and>
   infer_target_shape (fst (Compose_init [])) shape = shape \<and>
   repr_format (fst (Compose_init [])) what = repr_format Identity what \<and>
   repr_format (fst (Compose_init [])) what = what \<and>
   target_type (fst (Compose_init [])) = target_type Identity \<and>
   target_type (fst (Compose_init [])) = Some ''invariant''"
  by (simp add: Compose_init_Nil Transformer_infer_target_shape_def)

subsection \<open>Target type\<close>

text \<open>
  Claim C4. For the \<open>Compose\<close> object built from a list that ends in \<open>t\<close>: the outer
  transform is \<open>t\<close>, the inner one is built from the rest of the list, and the target
  type is that of \<open>t\<close> unless it is \<open>invariant\<close>, in which case it is that of the inner
  one. In particular a list that ends in a transform of target type \<open>integer\<close> followed
  by one of target type \<open>invariant\<close> gives the target type \<open>integer\<close>.
\<close>

theorem Compose_target_type_propagation:
  "apply' (fst (Compose_init (ts @ [t]))) = t \<and>
   composition (fst (Compose_init (ts @ [t]))) =
     (if ts = [] then Identity else fst (Compose_init ts)) \<and>
   target_type (composition (fst (Compose_init (ts @ [t])))) =
     target_type (fst (Compose_init ts)) \<and>
   target_type (fst (Compose_init (ts @ [t]))) =
     (if target_type t \<noteq> Some ''invariant'' then target_type t
      else target_type (composition (fst (Compose_init (ts @ [t]))))) \<and>
   (target_type t = Some ''invariant'' \<and> target_type s = Some ''integer'' \<longrightarrow>
      target_type (fst (Compose_init (ts @ [s, t]))) = Some ''integer'')"
proof -
  have "fst (Compose_init (ts @ [s, t])) = Compose (fst (Compose_init (ts @ [s]))) t"
    using Compose_init_fst_snoc [of "ts @ [s]" t] by simp
  then have "target_type t = Some ''invariant'' \<Longrightarrow> target_type s = Some ''integer'' \<Longrightarrow>
      target_type (fst (Compose_init (ts @ [s, t]))) = Some ''integer''"
    by (simp add: Compose_init_fst_snoc)
  then show ?thesis
    by (simp add: Compose_init_fst_snoc Compose_init_target_type_Nil)
qed

text \<open>At the list \<open>[Magnitude, Shift, Identity]\<close>.\<close>

theorem Compose_target_type_propagation_witness:
  "target_type (fst (Compose_init [Magnitude, Shift, Identity :: int Transformer])) =
     Some ''integer''"
  using Compose_target_type_propagation
    [where t = "Identity :: int Transformer" and s = Shift and ts = "[Magnitude]"]
  by (simp add: Shift_def)

subsection \<open>The caller's list\<close>

text \<open>
  The claim that the constructor leaves the caller's list as it was fails at the list
  \<open>[Shift, Magnitude]\<close>.
\<close>

theorem Compose_init_keeps_list_counterexample:
  "snd (Compose_init [Shift, Magnitude :: int Transformer]) \<noteq> [Shift, Magnitude]"
  by (simp add: Compose_init_consumes)

text \<open>
  Claim C10, amended. The constructor pops every element off the caller's list: after
  the call the list is empty, so it is as it was only if it was empty before.
\<close>

theorem Compose_init_empties_list:
  "snd (Compose_init ts) = [] \<and> (snd (Compose_init ts) = ts) = (ts = [])"
  by (auto simp add: Compose_init_consumes)


section \<open>Properties of \<open>build_required_space\<close>\<close>

subsection \<open>The loop over the requirements\<close>

lemma requirement_loop_recognised:
  "ty \<in> {''real'', ''integer'', ''categorical''} \<Longrightarrow>
   requirement_loop (r # rs) [] (Some ty) = Inl IndexError"
  by (auto simp add: select_transformers_def last_item_def)

lemma requirement_loop_unrecognised:
  "ty \<notin> {''real'', ''integer'', ''categorical''} \<Longrightarrow>
   requirement_loop (r # rs) [] (Some ty) =
     Inl (TypeError (''Unsupported dimension type '' @ [CHR 0x27] @ ty @ [CHR 0x27]))"
  by (simp add: select_transformers_def format_type_tag_def)

lemma requirement_loop_no_requirement:
  "requirement_loop [] transformers ty = Inr (transformers, ty)"
  by simp

lemma build_required_space_first_dimension:
  assumes "requirements_as_list requirements \<noteq> []"
  shows "build_required_space requirements (d # ds) =
     (if dim_type d \<in> {''real'', ''integer'', ''categorical''} then Inl IndexError
      else Inl (TypeError (''Unsupported dimension type '' @ [CHR 0x27] @ dim_type d @
                           [CHR 0x27])))"
proof -
  from assms obtain r rs where rs: "requirements_as_list requirements = r # rs"
    by (cases "requirements_as_list requirements") auto
  show ?thesis
  proof (cases "dim_type d \<in> {''real'', ''integer'', ''categorical''}")
    case True
    then have "requirement_loop (r # rs) ([] :: 'b Transformer list) (Some (dim_type d)) =
        Inl IndexError"
      by (rule requirement_loop_recognised)
    with True rs show ?thesis by (simp add: build_required_space_def)
  next
    case False
    then have "requirement_loop (r # rs) ([] :: 'b Transformer list) (Some (dim_type d)) =
        Inl (TypeError (''Unsupported dimension type '' @ [CHR 0x27] @ dim_type d @
                        [CHR 0x27]))"
      by (rule requirement_loop_unrecognised)
    with False rs show ?thesis by (simp add: build_required_space_def)
  qed
qed

text \<open>
  Claim C5. At the space whose dimensions are \<open>x\<close> of type \<open>real\<close> and then \<open>u\<close> of
  type \<open>unknown\<close>, with the requirements \<open>['real']\<close>, the function raises \<open>IndexError\<close>
  at \<open>x\<close> and never reaches \<open>u\<close>.
\<close>

theorem build_required_space_unknown_after_real:
  "build_required_space (A_list [''real''])
     [example_dimension ''x'' ''real'', example_dimension ''u'' ''unknown''] =
   Inl IndexError"
  by (simp add: build_required_space_first_dimension requirements_as_list_def
        example_dimension_def)

text \<open>
  Claim C6. At the space whose only dimension is \<open>x\<close> of type \<open>real\<close> with interval
  \<open>(0.0, 10.0)\<close>, with the requirements \<open>['invariant']\<close>, the function raises
  \<open>IndexError\<close>.
\<close>

theorem build_required_space_real_invariant:
  "build_required_space (A_list [''invariant'']) [example_dimension ''x'' ''real''] =
   Inl IndexError"
  by (simp add: build_required_space_first_dimension requirements_as_list_def
        example_dimension_def)

text \<open>
  The dimension of that scenario, wrapped with the \<open>Compose\<close> object of the empty list,
  has the properties the scenario expects.
\<close>

lemma wrapped_real_dimension:
  "TransformedDimension_type
     (TransformedDimension_init (fst (Compose_init [])) (example_dimension ''x'' ''real'')) =
     Some ''real'' \<and>
   TransformedDimension_transform
     (TransformedDimension_init (fst (Compose_init [])) (example_dimension ''x'' ''real'')) 5 = 5 \<and>
   TransformedDimension_reverse
     (TransformedDimension_init (fst (Compose_init [])) (example_dimension ''x'' ''real'')) 5 = 5 \<and>
   TransformedDimension_interval
     (TransformedDimension_init (fst (Compose_init [])) (example_dimension ''x'' ''real'')) 1 =
     (0, 10)"
  by (simp add: TransformedDimension_type_def TransformedDimension_transform_def
        TransformedDimension_reverse_def TransformedDimension_interval_def
        TransformedDimension_init_def Compose_init_Nil example_dimension_def)

text \<open>
  The claim that the function fails with \<open>IndexError\<close> whenever the space has a
  dimension of a recognised type fails at the space whose dimensions are \<open>u\<close> of type
  \<open>unknown\<close> and then \<open>x\<close> of type \<open>real\<close>: the \<open>TypeError\<close> for \<open>u\<close> comes first.
\<close>

theorem build_required_space_IndexError_counterexample:
  "build_required_space (A_list [''real''])
     [example_dimension ''u'' ''unknown'', example_dimension ''x'' ''real''] =
     Inl (TypeError (''Unsupported dimension type '' @ [CHR 0x27] @ ''unknown'' @ [CHR 0x27])) \<and>
   build_required_space (A_list [''real''])
     [example_dimension ''u'' ''unknown'', example_dimension ''x'' ''real''] \<noteq>
     Inl IndexError"
  by (simp add: build_required_space_first_dimension requirements_as_list_def
        example_dimension_def)

text \<open>
  Claim C7, amended. For a space with a dimension of a recognised type and a non-empty
  list of requirements, the function never returns a space. When the first dimension
  of the space is of a recognised type it raises \<open>IndexError\<close>, whatever the other
  requirements and dimensions are; otherwise it raises the \<open>TypeError\<close> for the first
  dimension.
\<close>

theorem build_required_space_never_returns:
  assumes "requirements_as_list requirements \<noteq> []"
    and "\<exists>d\<in>set dims. dim_type d \<in> {''real'', ''integer'', ''categorical''}"
  shows "(\<forall>space. build_required_space requirements dims \<noteq> Inr space) \<and>
    build_required_space requirements dims =
      (if dim_type (hd dims) \<in> {''real'', ''integer'', ''categorical''} then Inl IndexError
       else Inl (TypeError (''Unsupported dimension type '' @ [CHR 0x27] @
                            dim_type (hd dims) @ [CHR 0x27])))"
proof -
  from assms(2) obtain d ds where "dims = d # ds"
    by (cases dims) auto
  with assms(1) show ?thesis
    by (simp add: build_required_space_first_dimension)
qed

text \<open>At the requirements \<open>['real', 'integer']\<close> and the dimensions \<open>x\<close>, \<open>u\<close>.\<close>

theorem build_required_space_never_returns_witness:
  "build_required_space (A_list [''real'', ''integer''])
     [example_dimension ''x'' ''integer'', example_dimension ''u'' ''unknown''] =
   Inl IndexError"
  using build_required_space_never_returns
    [of "A_list [''real'', ''integer'']"
        "[example_dimension ''x'' ''integer'', example_dimension ''u'' ''unknown'']"]
  by (simp add: requirements_as_list_def example_dimension_def)


section \<open>Properties of \<open>TransformedDimension\<close> and \<open>TransformedSpace\<close>\<close>

subsection \<open>Sampling\<close>

text \<open>
  Claim C8. For every transformed dimension, count and seed, \<open>sample\<close> is the draw of
  the original dimension with the dimension's \<open>transform\<close> applied to each element: the
  two lists have the same length, the \<open>i\<close>-th transformed sample is the transform of the
  \<open>i\<close>-th original sample, and the result has \<open>n\<close> elements whenever the original draw
  has.
\<close>

theorem TransformedDimension_sample_elementwise:
  "TransformedDimension_sample self n seed =
     map (TransformedDimension_transform self)
       (dim_sample (original_dimension self) n seed) \<and>
   length (TransformedDimension_sample self n seed) =
     length (dim_sample (original_dimension self) n seed) \<and>
   (\<forall>i < length (dim_sample (original_dimension self) n seed).
      TransformedDimension_sample self n seed ! i =
        TransformedDimension_transform self
          (dim_sample (original_dimension self) n seed ! i)) \<and>
   (int (length (dim_sample (original_dimension self) n seed)) = n \<longrightarrow>
      int (length (TransformedDimension_sample self n seed)) = n)"
  by (simp add: TransformedDimension_sample_def)

text \<open>
  At the dimension \<open>x\<close> wrapped with \<open>Compose([Shift])\<close>, three samples, seed \<open>7\<close>: the
  original draw is \<open>[7, 8, 9]\<close>.
\<close>

theorem TransformedDimension_sample_elementwise_witness:
  "TransformedDimension_sample
     (TransformedDimension_init (fst (Compose_init [Shift])) (example_dimension ''x'' ''real''))
     3 (Some 7) = [8, 9, 10]"
  using TransformedDimension_sample_elementwise
    [of "TransformedDimension_init (fst (Compose_init [Shift]))
           (example_dimension ''x'' ''real'')" 3 "Some 7", THEN conjunct1]
  by (simp add: TransformedDimension_init_def TransformedDimension_transform_def
        example_dimension_def Compose_init_single Shift_def numeral_3_eq_3)

subsection \<open>Order of the dimensions\<close>

lemma Space_register_fresh:
  "TransformedDimension_name d \<notin> fst ` set space \<Longrightarrow>
   Space_register space d = space @ [(TransformedDimension_name d, d)]"
  by (induction space) auto

lemma dimension_loop_appends:
  fixes dims :: "'p Dimension list"
  shows "dimension_loop requirements dims space0 = Inr space \<Longrightarrow>
   distinct (map fst space0 @ map dim_name dims) \<Longrightarrow>
   map fst space = map fst space0 @ map dim_name dims \<and>
   map original_dimension (Space_values space) =
     map original_dimension (Space_values space0) @ dims"
proof (induction dims arbitrary: space0)
  case Nil
  then show ?case by simp
next
  case (Cons d dims)
  from Cons.prems(1) obtain ts :: "'p Transformer list" and ty where
    loop: "requirement_loop requirements [] (Some (dim_type d)) = Inr (ts, ty)"
    by (auto split: sum.splits)
  define td where "td = TransformedDimension_init (fst (Compose_init ts)) d"
  have name: "TransformedDimension_name td = dim_name d"
    and orig: "original_dimension td = d"
    by (simp_all add: td_def TransformedDimension_name_def TransformedDimension_init_def)
  from Cons.prems(2) have "TransformedDimension_name td \<notin> fst ` set space0"
    by (auto simp add: name)
  then have reg: "Space_register space0 td = space0 @ [(dim_name d, td)]"
    by (simp add: Space_register_fresh name)
  from Cons.prems(1) loop
  have "dimension_loop requirements dims (Space_register space0 td) = Inr space"
    by (simp add: td_def case_prod_beta)
  then have rest: "dimension_loop requirements dims (space0 @ [(dim_name d, td)]) = Inr space"
    by (simp add: reg)
  from Cons.prems(2)
  have "distinct (map fst (space0 @ [(dim_name d, td)]) @ map dim_name dims)"
    by auto
  from Cons.IH [OF rest this] show ?case
    by (simp add: Space_values_def orig)
qed

lemma build_required_space_values:
  assumes "build_required_space requirements dims = Inr space"
    and "distinct (map dim_name dims)"
  shows "map original_dimension (Space_values space) = dims"
    and "map TransformedDimension_name (Space_values space) = map dim_name dims"
proof -
  from assms(1)
  have loop: "dimension_loop (requirements_as_list requirements) dims [] = Inr space"
    by (simp add: build_required_space_def TransformedSpace_init_def)
  from dimension_loop_appends [OF loop] assms(2)
  show "map original_dimension (Space_values space) = dims"
    by (simp add: Space_values_def)
  moreover have "map TransformedDimension_name (Space_values space) =
      map dim_name (map original_dimension (Space_values space))"
    by (simp add: TransformedDimension_name_def comp_def)
  ultimately show "map TransformedDimension_name (Space_values space) = map dim_name dims"
    by simp
qed

lemma for_enumerate_in_range:
  "n + length ds \<le> length point \<Longrightarrow>
   for_enumerate f (enumerate n ds) point =
     Inr (map (\<lambda>(i, d). f d (point ! i)) (enumerate n ds))"
  by (induction ds arbitrary: n) (simp_all add: index_at_def)

lemma enumerate_positional:
  "length ds = length point \<Longrightarrow>
   map (\<lambda>(i, d). f d (point ! i)) (enumerate 0 ds) = map2 f ds point"
  by (rule nth_equalityI) (simp_all add: nth_enumerate_eq)

lemma for_enumerate_positional:
  "length point = length ds \<Longrightarrow>
   for_enumerate f (enumerate 0 ds) point = Inr (map2 f ds point)"
  by (simp add: for_enumerate_in_range enumerate_positional)

text \<open>
  Claim C9. The space that \<open>build_required_space\<close> returns for an original space
  (whose dimensions have distinct names, as the keys of a mapping) holds the
  transformed dimensions in the order of the original dimensions. For every space
  and every point with as many coordinates as the space has dimensions, \<open>transform\<close>
  applies the transform of the \<open>i\<close>-th dimension to the \<open>i\<close>-th coordinate, and \<open>reverse\<close>
  the reverse of the \<open>i\<close>-th dimension to the \<open>i\<close>-th coordinate.
\<close>

theorem TransformedSpace_order_and_positions:
  "(build_required_space requirements dims = Inr built \<and> distinct (map dim_name dims) \<longrightarrow>
      map original_dimension (Space_values built) = dims \<and>
      map TransformedDimension_name (Space_values built) = map dim_name dims) \<and>
   (length point = length (Space_values space) \<longrightarrow>
      TransformedSpace_transform space point =
        Inr (map2 TransformedDimension_transform (Space_values space) point) \<and>
      TransformedSpace_reverse space point =
        Inr (map2 TransformedDimension_reverse (Space_values space) point) \<and>
      (\<forall>i < length point.
         map2 TransformedDimension_transform (Space_values space) point ! i =
           TransformedDimension_transform (Space_values space ! i) (point ! i) \<and>
         map2 TransformedDimension_reverse (Space_values space) point ! i =
           TransformedDimension_reverse (Space_values space ! i) (point ! i)))"
  using build_required_space_values [of requirements dims built]
  by (simp add: TransformedSpace_transform_def TransformedSpace_reverse_def
        for_enumerate_positional)


text \<open>With no requirement the function returns a space, whatever the dimensions.\<close>

lemma dimension_loop_no_requirements:
  "\<exists>space. dimension_loop [] dims space0 = Inr space"
  by (induction dims arbitrary: space0) (simp_all add: case_prod_beta)

lemma build_required_space_no_requirements:
  "\<exists>space. build_required_space (A_list []) dims = Inr space"
  by (simp add: build_required_space_def requirements_as_list_def
        dimension_loop_no_requirements)

text \<open>
  At the empty list of requirements and the dimensions \<open>a\<close>, \<open>b\<close>, \<open>c\<close> (the only
  lists of requirements for which a non-empty space is returned are the empty ones);
  and at the space that holds \<open>a\<close> wrapped with \<open>Shift\<close> and \<open>b\<close> wrapped with
  \<open>Magnitude\<close>, with the point \<open>(1, -2)\<close>.
\<close>

theorem TransformedSpace_order_and_positions_witness:
  "(\<exists>built.
      build_required_space (A_list ([] :: string list))
        [example_dimension ''a'' ''real'', example_dimension ''b'' ''integer'',
         example_dimension ''c'' ''categorical''] = Inr built \<and>
      map TransformedDimension_name (Space_values built) = [''a'', ''b'', ''c'']) \<and>
   TransformedSpace_transform
     [(''a'', TransformedDimension_init Shift (example_dimension ''a'' ''real'')),
      (''b'', TransformedDimension_init Magnitude (example_dimension ''b'' ''integer''))]
     [1, - 2] = Inr [2, - 2]"
proof -
  define dims where "dims = [example_dimension ''a'' ''real'',
    example_dimension ''b'' ''integer'', example_dimension ''c'' ''categorical'']"
  define space where "space =
    [(''a'', TransformedDimension_init Shift (example_dimension ''a'' ''real'')),
     (''b'', TransformedDimension_init Magnitude (example_dimension ''b'' ''integer''))]"
  obtain built where
    built: "build_required_space (A_list ([] :: string list)) dims = Inr built"
    using build_required_space_no_requirements [of dims] by auto
  have names: "map dim_name dims = [''a'', ''b'', ''c'']"
    by (simp add: dims_def example_dimension_def)
  then have dist: "distinct (map dim_name dims)"
    by simp
  have vals: "Space_values space =
      [TransformedDimension_init Shift (example_dimension ''a'' ''real''),
       TransformedDimension_init Magnitude (example_dimension ''b'' ''integer'')]"
    by (simp add: space_def Space_values_def)
  then have len: "length [1, - 2 :: real] = length (Space_values space)"
    by simp
  note inst = TransformedSpace_order_and_positions
    [of "A_list ([] :: string list)" dims built "[1, - 2]" space]
  from inst [THEN conjunct1] built dist
  have "map TransformedDimension_name (Space_values built) = map dim_name dims"
    by simp
  with names have order: "map TransformedDimension_name (Space_values built) =
      [''a'', ''b'', ''c'']"
    by simp
  from inst [THEN conjunct2] len
  have "TransformedSpace_transform space [1, - 2] =
      Inr (map2 TransformedDimension_transform (Space_values space) [1, - 2])"
    by simp
  also have "map2 TransformedDimension_transform (Space_values space) [1, - 2] = [2, - 2]"
    by (simp add: vals TransformedDimension_transform_def TransformedDimension_init_def
          Shift_def Magnitude_def)
  finally have pos: "TransformedSpace_transform space [1, - 2] = Inr [2, - 2]" .
  from built order have "\<exists>built.
      build_required_space (A_list ([] :: string list)) dims = Inr built \<and>
      map TransformedDimension_name (Space_values built) = [''a'', ''b'', ''c'']"
    by (intro exI conjI)
  with pos show ?thesis
    unfolding dims_def space_def by (intro conjI)
qed

end
